theory Spec2Isabelle
  imports Main
begin

section \<open>Python values shared by the whole development\<close>

text \<open>
  Every \<^verbatim>\<open>raise\<close> of the Python source is a value of \<open>py_exn\<close>; a function that can
  raise returns \<open>py_exn + 'a\<close> with \<open>Inl\<close> for the exception.  \<open>OSError\<close> carries the
  error number and its text, for the numbers that have no class of their own
  (\<^verbatim>\<open>ENAMETOOLONG\<close> 36, \<^verbatim>\<open>ENOSPC\<close> 28).  \<open>OtherError\<close> carries the text of an exception
  of any other class (a model backend's \<^verbatim>\<open>RuntimeError\<close>, say).
\<close>

datatype py_exn =
    IndexError
  | ValueError
  | AttributeError
  | FileNotFoundError
  | FileExistsError
  | IsADirectoryError
  | NotADirectoryError
  | PermissionError
  | SameFileError
  | JSONDecodeError
  | UnicodeDecodeError
  | OSError nat string
  | CodeAgentError string
  | OtherError string

text \<open>
  The words of \<^verbatim>\<open>str(e)\<close>, which the f-strings of the tools print; the error number and
  the file name that Python puts around the words of an \<^verbatim>\<open>OSError\<close> are left out.
\<close>

fun exn_str :: "py_exn \<Rightarrow> string" where
  "exn_str IndexError = ''list index out of range''"
| "exn_str ValueError = ''invalid value''"
| "exn_str AttributeError = ''object has no attribute get''"
| "exn_str FileNotFoundError = ''No such file or directory''"
| "exn_str FileExistsError = ''File exists''"
| "exn_str IsADirectoryError = ''Is a directory''"
| "exn_str NotADirectoryError = ''Not a directory''"
| "exn_str PermissionError = ''Permission denied''"
| "exn_str SameFileError = ''are the same file''"
| "exn_str JSONDecodeError = ''Expecting value''"
| "exn_str UnicodeDecodeError = '''utf-8' codec can't decode byte''"
| "exn_str (OSError n msg) = msg"
| "exn_str (CodeAgentError s) = s"
| "exn_str (OtherError s) = s"




definition dq :: string where
  "dq = [CHR 0x22]"

section \<open>graph.py: the conversation state and the control loop\<close>

record tool_call =
  tc_name :: string
  tc_args :: "(string \<times> string) list"
  tc_id :: string

text \<open>
  The three message classes of \<^verbatim>\<open>langchain_core.messages\<close> the loop sees:
  \<open>HumanMessage content\<close>, \<open>AIMessage content tool_calls\<close> and
  \<open>ToolMessage content tool_call_id name\<close>.
\<close>

datatype message =
    HumanMessage string
  | AIMessage string "tool_call list"
  | ToolMessage string string string

fun content :: "message \<Rightarrow> string" where
  "content (HumanMessage c) = c"
| "content (AIMessage c tcs) = c"
| "content (ToolMessage c i n) = c"

text \<open>\<^verbatim>\<open>isinstance(last, AIMessage) and last.tool_calls\<close>: a non-empty list is truthy.\<close>

fun requests_tools :: "message \<Rightarrow> bool" where
  "requests_tools (AIMessage c tcs) = (tcs \<noteq> [])"
| "requests_tools (HumanMessage c) = False"
| "requests_tools (ToolMessage c i n) = False"

fun is_AIMessage :: "message \<Rightarrow> bool" where
  "is_AIMessage (AIMessage c tcs) = True"
| "is_AIMessage (HumanMessage c) = False"
| "is_AIMessage (ToolMessage c i n) = False"

record AgentState =
  messages :: "message list"

text \<open>
  The model handed to \<open>call_llm\<close> is an external collaborator.  It is a parameter: a
  function of the world \<open>'w\<close> (whatever the backend depends on and changes) and of the
  conversation, that returns an exception or a message, and the next world.
\<close>

type_synonym 'w model = "'w \<Rightarrow> message list \<Rightarrow> (py_exn + message) \<times> 'w"

text \<open>
  \<^verbatim>\<open>
  def call_llm(state, model):
      response = model.invoke(state["messages"])
      return {"messages": state["messages"] + [response]}
  \<close>
\<close>

definition call_llm :: "AgentState \<Rightarrow> 'w model \<Rightarrow> 'w \<Rightarrow> (py_exn + AgentState) \<times> 'w" where
  "call_llm state model w =
     (case model w (messages state) of
        (Inl e, w') \<Rightarrow> (Inl e, w')
      | (Inr response, w') \<Rightarrow> (Inr \<lparr>messages = messages state @ [response]\<rparr>, w'))"

datatype route = Action | END

text \<open>
  \<^verbatim>\<open>
  def should_continue(state):
      last = state["messages"][-1]
      if isinstance(last, AIMessage) and last.tool_calls:
          return "action"
      return END
  \<close>
  Indexing an empty list with \<^verbatim>\<open>[-1]\<close> raises \<^verbatim>\<open>IndexError\<close>.
\<close>

definition should_continue :: "AgentState \<Rightarrow> py_exn + route" where
  "should_continue state =
     (case rev (messages state) of
        [] \<Rightarrow> Inl IndexError
      | lst # _ \<Rightarrow> if requests_tools lst then Inr Action else Inr END)"

text \<open>
  The tool node (\<^verbatim>\<open>langgraph.prebuilt.ToolNode\<close>) is external too: a parameter that maps
  the world and the messages to an exception or to the messages of the next state, and
  the next world (tools write files).
\<close>

type_synonym 'w tool_node = "'w \<Rightarrow> message list \<Rightarrow> (py_exn + message list) \<times> 'w"

datatype outcome = Done AgentState | Raised py_exn | OutOfFuel

text \<open>
  \<open>build_graph\<close> wires the entry point \<^verbatim>\<open>agent\<close> (\<open>call_llm\<close>), the conditional edge
  \<open>should_continue\<close> and the edge from \<^verbatim>\<open>action\<close> back to \<^verbatim>\<open>agent\<close>.  Running the
  compiled graph is the loop below.  The source has no bound on the number of rounds, so
  the loop takes fuel (one unit per visit of the \<^verbatim>\<open>agent\<close> node) and answers
  \<open>OutOfFuel\<close> when it is used up.  The third component counts the model calls made.
\<close>

fun graph_run ::
  "nat \<Rightarrow> 'w model \<Rightarrow> 'w tool_node \<Rightarrow> nat \<Rightarrow> 'w \<Rightarrow> AgentState \<Rightarrow> outcome \<times> 'w \<times> nat" where
  "graph_run 0 model action k w st = (OutOfFuel, w, k)"
| "graph_run (Suc n) model action k w st =
     (case call_llm st model w of
        (Inl e, w1) \<Rightarrow> (Raised e, w1, Suc k)
      | (Inr st1, w1) \<Rightarrow>
          (case should_continue st1 of
             Inl e \<Rightarrow> (Raised e, w1, Suc k)
           | Inr END \<Rightarrow> (Done st1, w1, Suc k)
           | Inr Action \<Rightarrow>
               (case action w1 (messages st1) of
                  (Inl e, w2) \<Rightarrow> (Raised e, w2, Suc k)
                | (Inr ms, w2) \<Rightarrow> graph_run n model action (Suc k) w2 \<lparr>messages = ms\<rparr>)))"

definition build_graph ::
  "'w model \<Rightarrow> 'w tool_node \<Rightarrow> nat \<Rightarrow> 'w \<Rightarrow> AgentState \<Rightarrow> outcome \<times> 'w \<times> nat" where
  "build_graph bound_model action fuel w st = graph_run fuel bound_model action 0 w st"

section \<open>main.py: the model, live or fallback\<close>

text \<open>
  \<open>create_llm\<close> returns the Ollama chat model, or the class \<^verbatim>\<open>_FallbackLLM\<close> built
  from the exception and the base URL when the import or the constructor raises.
\<close>

datatype 'l chat_model = Live 'l | FallbackLLM py_exn string

text \<open>\<^verbatim>\<open>cfg.get(key, default)\<close> on the configuration, its values as their text.\<close>

definition cfg_get :: "(string \<rightharpoonup> string) \<Rightarrow> string \<Rightarrow> string \<Rightarrow> string" where
  "cfg_get cfg key dflt = (case cfg key of None \<Rightarrow> dflt | Some v \<Rightarrow> v)"

text \<open>
  \<open>ChatOllama\<close> stands for the import and the constructor call
  \<^verbatim>\<open>ChatOllama(model=..., base_url=..., temperature=...)\<close> of the external package.
\<close>

definition create_llm ::
  "(string \<rightharpoonup> string) \<Rightarrow> (string \<Rightarrow> string \<Rightarrow> string \<Rightarrow> py_exn + 'l) \<Rightarrow> 'l chat_model" where
  "create_llm cfg ChatOllama =
     (let scheme = cfg_get cfg ''ollama_scheme'' ''http'';
          host = cfg_get cfg ''ollama_host'' ''localhost'';
          port = cfg_get cfg ''ollama_port'' ''11434'';
          model = cfg_get cfg ''ollama_model'' ''gpt-oss:20b-cloud'';
          temperature = cfg_get cfg ''temperature'' ''0.7'';
          base_url = scheme @ ''://'' @ host @ '':'' @ port
      in case ChatOllama model base_url temperature of
           Inr llm \<Rightarrow> Live llm
         | Inl exc \<Rightarrow> FallbackLLM exc base_url)"

text \<open>
  \<^verbatim>\<open>_FallbackLLM._generate\<close>: the content is \<^verbatim>\<open>json.dumps\<close> of a dictionary with the keys
  \<^verbatim>\<open>error\<close> and \<^verbatim>\<open>details\<close>.  \<open>json_str\<close> is the JSON encoding of one Python string
  (quotes and escapes), a function of the standard library taken as a parameter.
\<close>

definition fallback_generate ::
  "(string \<Rightarrow> string) \<Rightarrow> py_exn \<Rightarrow> string \<Rightarrow> message list \<Rightarrow> message" where
  "fallback_generate json_str err base_url msgs =
     AIMessage
       (''{'' @ dq @ ''error'' @ dq @ '': '' @ dq @ ''LLM unavailable'' @ dq @ '', ''
          @ dq @ ''details'' @ dq @ '': ''
          @ json_str (''Failed to initialise ChatOllama. Error: '' @ exn_str err
                      @ ''. Base URL: '' @ base_url @ ''.'')
          @ ''}'')
       []"

text \<open>
  \<^verbatim>\<open>llm.bind_tools(tools)\<close> followed by \<^verbatim>\<open>invoke\<close>.  The fallback's \<^verbatim>\<open>bind_tools\<close>
  returns the fallback itself, whose \<^verbatim>\<open>invoke\<close> returns the message of \<^verbatim>\<open>_generate\<close>;
  the live model's bound \<^verbatim>\<open>invoke\<close> is the parameter \<open>live\<close>.
\<close>

definition bind_tools ::
  "(string \<Rightarrow> string) \<Rightarrow> ('l \<Rightarrow> 'w model) \<Rightarrow> 'l chat_model \<Rightarrow> 'w model" where
  "bind_tools json_str live llm w msgs =
     (case llm of
        Live l \<Rightarrow> live l w msgs
      | FallbackLLM err base_url \<Rightarrow> (Inr (fallback_generate json_str err base_url msgs), w))"

section \<open>The file system, as pathlib and shutil see it\<close>

text \<open>
  A path is the list of its components below the file-system root; the tools' root
  directory is resolved and absolute, so every path the tools touch is one.  A node is a
  regular file with its bytes, or a directory; the root \<open>[]\<close> is always a directory.
  Text is held as its UTF-8 bytes.  Components \<^verbatim>\<open>..\<close> and symbolic links are not
  interpreted.

  The other fields say where the operating system refuses:
  \<^item> \<open>unwritable\<close> and \<open>unreadable\<close> are the paths the process may not create or open
    for writing, and may not open for reading (\<^verbatim>\<open>PermissionError\<close>);
  \<^item> \<open>stat_errors\<close> gives the paths whose lookup itself raises, with the exception: a
    name longer than the file system allows (\<^verbatim>\<open>OSError\<close> 36), a directory on the way
    that may not be searched (\<^verbatim>\<open>PermissionError\<close>);
  \<^item> \<open>write_limit\<close> gives the files that take only so many bytes in one write, then
    raise \<^verbatim>\<open>OSError\<close> 28 with those bytes written (a full device);
  \<^item> \<open>chmod_denied\<close> are the paths whose mode bits may not be set.
\<close>

type_synonym path = "string list"

datatype node = File string | Dir

record fs =
  nodes :: "path \<rightharpoonup> node"
  unwritable :: "path set"
  unreadable :: "path set"
  stat_errors :: "path \<rightharpoonup> py_exn"
  write_limit :: "path \<rightharpoonup> nat"
  chmod_denied :: "path set"

definition fs_lookup :: "fs \<Rightarrow> path \<Rightarrow> node option" where
  "fs_lookup s p = (if p = [] then Some Dir else nodes s p)"

text \<open>\<^verbatim>\<open>os.stat\<close>: the node, or the exception of the lookup.\<close>

definition os_stat :: "fs \<Rightarrow> path \<Rightarrow> py_exn + node" where
  "os_stat s p =
     (case stat_errors s p of
        Some e \<Rightarrow> Inl e
      | None \<Rightarrow> (case fs_lookup s p of None \<Rightarrow> Inl FileNotFoundError | Some n \<Rightarrow> Inr n))"

text \<open>
  \<^verbatim>\<open>pathlib._ignore_error\<close>: the error numbers \<^verbatim>\<open>ENOENT\<close> 2, \<^verbatim>\<open>ENOTDIR\<close> 20, \<^verbatim>\<open>EBADF\<close> 9 and
  \<^verbatim>\<open>ELOOP\<close> 40 read as "not there".
\<close>

fun ignore_error :: "py_exn \<Rightarrow> bool" where
  "ignore_error FileNotFoundError = True"
| "ignore_error NotADirectoryError = True"
| "ignore_error (OSError n msg) = (n = 2 \<or> n = 20 \<or> n = 9 \<or> n = 40)"
| "ignore_error e = False"

text \<open>
  \<^verbatim>\<open>
  def exists(self):
      try:
          self.stat()
      except OSError as e:
          if not _ignore_error(e):
              raise
          return False
      except ValueError:
          return False
      return True
  \<close>
  and \<^verbatim>\<open>is_file\<close> alike, with \<^verbatim>\<open>S_ISREG\<close> of the mode in place of \<^verbatim>\<open>True\<close> (pathlib of
  Python 3.11; a path has no null byte here, so no \<^verbatim>\<open>ValueError\<close>).
\<close>

definition path_exists :: "fs \<Rightarrow> path \<Rightarrow> py_exn + bool" where
  "path_exists s p =
     (case os_stat s p of
        Inl e \<Rightarrow> if ignore_error e then Inr False else Inl e
      | Inr n \<Rightarrow> Inr True)"


text \<open>\<^verbatim>\<open>os.path.isdir\<close>, which answers \<^verbatim>\<open>False\<close> on every error of the lookup.\<close>

definition os_path_isdir :: "fs \<Rightarrow> path \<Rightarrow> bool" where
  "os_path_isdir s p = (os_stat s p = Inr Dir)"

definition parent :: "path \<Rightarrow> path" where
  "parent p = butlast p"

definition name :: "path \<Rightarrow> string" where
  "name p = (if p = [] then [] else last p)"

text \<open>\<^verbatim>\<open>str.split("/")\<close>, and the parts pathlib keeps of a path string.\<close>

fun split_slash :: "string \<Rightarrow> string list" where
  "split_slash [] = [[]]"
| "split_slash (c # cs) =
     (if c = CHR ''/'' then [] # split_slash cs
      else (case split_slash cs of w # ws \<Rightarrow> (c # w) # ws | [] \<Rightarrow> [[c]]))"

definition parse_parts :: "string \<Rightarrow> path" where
  "parse_parts s = filter (\<lambda>c. c \<noteq> [] \<and> c \<noteq> ''.'') (split_slash s)"


text \<open>\<^verbatim>\<open>str(path)\<close>, as the f-strings print a path.\<close>

definition render :: "path \<Rightarrow> string" where
  "render p = (if p = [] then ''/'' else concat (map (\<lambda>c. ''/'' @ c) p))"

text \<open>
  \<^verbatim>\<open>PurePath.suffix\<close>: the name from its last dot on, when that dot is neither the first
  nor the last character.  \<^verbatim>\<open>PurePath.with_suffix\<close> raises \<^verbatim>\<open>ValueError\<close> on an empty
  name and replaces the old suffix otherwise (its checks of the new suffix cannot fail
  for \<^verbatim>\<open>.tmp\<close> nor for an old suffix followed by \<^verbatim>\<open>.bak\<close>).
\<close>

definition rfind_dot :: "string \<Rightarrow> nat option" where
  "rfind_dot s =
     (case filter (\<lambda>i. s ! i = CHR ''.'') (rev [0..<length s]) of
        [] \<Rightarrow> None
      | i # _ \<Rightarrow> Some i)"

definition suffix :: "path \<Rightarrow> string" where
  "suffix p =
     (case rfind_dot (name p) of
        None \<Rightarrow> []
      | Some i \<Rightarrow> if 0 < i \<and> i < length (name p) - 1 then drop i (name p) else [])"

definition with_suffix :: "path \<Rightarrow> string \<Rightarrow> py_exn + path" where
  "with_suffix p sfx =
     (if name p = [] then Inl ValueError
      else Inr (butlast p @
                [if suffix p = [] then name p @ sfx
                 else take (length (name p) - length (suffix p)) (name p) @ sfx]))"

subsection \<open>Primitive steps and their runs\<close>

text \<open>
  A step changes the file system or raises.  \<open>run_steps\<close> runs steps in order up to
  the first exception.  \<open>trace\<close> lists every state the file system passes through on
  the way: the states an interruption between two steps leaves behind.
\<close>

type_synonym step = "fs \<Rightarrow> (py_exn + unit) \<times> fs"

fun run_steps :: "step list \<Rightarrow> fs \<Rightarrow> (py_exn + unit) \<times> fs" where
  "run_steps [] s = (Inr (), s)"
| "run_steps (f # fs) s =
     (case f s of (Inl e, s') \<Rightarrow> (Inl e, s') | (Inr u, s') \<Rightarrow> run_steps fs s')"

fun trace :: "step list \<Rightarrow> fs \<Rightarrow> fs list" where
  "trace [] s = [s]"
| "trace (f # fs) s =
     s # (case f s of (Inl e, s') \<Rightarrow> [s'] | (Inr u, s') \<Rightarrow> trace fs s')"

text \<open>May \<open>p\<close> be created or opened for writing: the conditions of \<^verbatim>\<open>open(p, "w")\<close>.\<close>

definition open_error :: "fs \<Rightarrow> path \<Rightarrow> py_exn option" where
  "open_error s p =
     (if stat_errors s p \<noteq> None then stat_errors s p
      else if fs_lookup s p = Some Dir then Some IsADirectoryError
      else if fs_lookup s (parent p) = None then Some FileNotFoundError
      else if fs_lookup s (parent p) \<noteq> Some Dir then Some NotADirectoryError
      else if p \<in> unwritable s then Some PermissionError
      else None)"

datatype open_mode = ModeW | ModeA | ModeX

text \<open>
  \<^verbatim>\<open>open(p, mode)\<close> for the writing modes: \<^verbatim>\<open>w\<close> creates or truncates, \<^verbatim>\<open>a\<close> creates or
  keeps the text, \<^verbatim>\<open>x\<close> creates and refuses an existing path.
\<close>

definition open_for :: "open_mode \<Rightarrow> path \<Rightarrow> step" where
  "open_for m p s =
     (case open_error s p of
        Some e \<Rightarrow> (Inl e, s)
      | None \<Rightarrow>
          (case m of
             ModeW \<Rightarrow> (Inr (), s\<lparr>nodes := (nodes s)(p \<mapsto> File [])\<rparr>)
           | ModeA \<Rightarrow>
               (case fs_lookup s p of
                  Some n \<Rightarrow> (Inr (), s)
                | None \<Rightarrow> (Inr (), s\<lparr>nodes := (nodes s)(p \<mapsto> File [])\<rparr>))
           | ModeX \<Rightarrow>
               (case fs_lookup s p of
                  Some n \<Rightarrow> (Inl FileExistsError, s)
                | None \<Rightarrow> (Inr (), s\<lparr>nodes := (nodes s)(p \<mapsto> File [])\<rparr>))))"

text \<open>
  \<^verbatim>\<open>fp.write(data)\<close> and the close: the data goes behind the bytes of the open file, as
  far as the file takes them.
\<close>

definition write_data :: "path \<Rightarrow> string \<Rightarrow> step" where
  "write_data p newdata s =
     (case fs_lookup s p of
        Some (File old) \<Rightarrow>
          (case write_limit s p of
             None \<Rightarrow> (Inr (), s\<lparr>nodes := (nodes s)(p \<mapsto> File (old @ newdata))\<rparr>)
           | Some n \<Rightarrow>
               if length newdata \<le> n
               then (Inr (), s\<lparr>nodes := (nodes s)(p \<mapsto> File (old @ newdata))\<rparr>)
               else (Inl (OSError 28 ''No space left on device''),
                     s\<lparr>nodes := (nodes s)(p \<mapsto> File (old @ take n newdata))\<rparr>))
      | _ \<Rightarrow> (Inl FileNotFoundError, s))"

text \<open>The file at \<open>p\<close> takes these bytes in one write.\<close>

definition fits :: "fs \<Rightarrow> path \<Rightarrow> string \<Rightarrow> bool" where
  "fits s p newdata = (case write_limit s p of None \<Rightarrow> True | Some n \<Rightarrow> length newdata \<le> n)"

text \<open>
  \<^verbatim>\<open>Path.write_text\<close>: open with \<^verbatim>\<open>w\<close>, write, close.  The text goes out as its UTF-8
  bytes; on a POSIX system no newline is translated on the way out.
\<close>

definition write_text_steps :: "path \<Rightarrow> string \<Rightarrow> step list" where
  "write_text_steps p newdata = [open_for ModeW p, write_data p newdata]"

definition write_text :: "path \<Rightarrow> string \<Rightarrow> step" where
  "write_text p newdata = run_steps (write_text_steps p newdata)"

text \<open>Opening a file for reading and reading all of it: the bytes, or the exception.\<close>

definition read_bytes :: "path \<Rightarrow> fs \<Rightarrow> py_exn + string" where
  "read_bytes p s =
     (case os_stat s p of
        Inl e \<Rightarrow> Inl e
      | Inr Dir \<Rightarrow> Inl IsADirectoryError
      | Inr (File c) \<Rightarrow> if p \<in> unreadable s then Inl PermissionError else Inr c)"







text \<open>
  \<^verbatim>\<open>
  def copy(src, dst):
      if os.path.isdir(dst):
          dst = os.path.join(dst, os.path.basename(src))
      copyfile(src, dst)
      copymode(src, dst)
      return dst
  \<close>
\<close>

definition copy_target :: "fs \<Rightarrow> path \<Rightarrow> path \<Rightarrow> path" where
  "copy_target s src dst = (if os_path_isdir s dst then dst @ [name src] else dst)"


text \<open>
  \<^verbatim>\<open>Path.mkdir(parents=True, exist_ok=True)\<close>: the missing directories are made from the
  top down; a regular file in the way or a directory that may not be made raises.
\<close>

fun mkdirs :: "path list \<Rightarrow> step" where
  "mkdirs [] s = (Inr (), s)"
| "mkdirs (q # qs) s =
     (case stat_errors s q of
        Some e \<Rightarrow> (Inl e, s)
      | None \<Rightarrow>
          (case fs_lookup s q of
             Some Dir \<Rightarrow> mkdirs qs s
           | Some (File c) \<Rightarrow> (Inl (if qs = [] then FileExistsError else NotADirectoryError), s)
           | None \<Rightarrow>
               if q \<in> unwritable s then (Inl PermissionError, s)
               else mkdirs qs (s\<lparr>nodes := (nodes s)(q \<mapsto> Dir)\<rparr>)))"

definition mkdir_parents :: "path \<Rightarrow> step" where
  "mkdir_parents p = mkdirs (map (\<lambda>k. take k p) [1..<Suc (length p)])"


text \<open>\<^verbatim>\<open>Path.replace\<close> (\<^verbatim>\<open>os.replace\<close>): one rename, onto the target if there is one.\<close>

definition os_replace :: "path \<Rightarrow> path \<Rightarrow> step" where
  "os_replace src dst s =
     (case os_stat s src of
        Inl e \<Rightarrow> (Inl e, s)
      | Inr n \<Rightarrow>
          if src = dst then (Inr (), s)
          else (case open_error s dst of
                  Some e \<Rightarrow> (Inl e, s)
                | None \<Rightarrow> (Inr (), s\<lparr>nodes := (nodes s)(src := None, dst \<mapsto> n)\<rparr>)))"

section \<open>file\_generator.py: write\_file\<close>

text \<open>
  \<^verbatim>\<open>
  def write_file(target, content, *, mode="w", encoding="utf-8"):
      target = Path(target).expanduser().resolve()
      try:
          target.parent.mkdir(parents=True, exist_ok=True)
          tmp = target.with_suffix(".tmp")
          with tmp.open(mode, encoding=encoding) as fp:
              fp.write(content)
          tmp.replace(target)
          return target
      except OSError as exc:
          raise CodeAgentError(...) from exc
  \<close>
  The target is taken resolved.  The \<^verbatim>\<open>ValueError\<close> of \<open>with_suffix\<close> is no
  \<^verbatim>\<open>OSError\<close> and passes through.
\<close>

definition write_file_steps :: "path \<Rightarrow> string \<Rightarrow> open_mode \<Rightarrow> step list" where
  "write_file_steps target text_content m =
     (case with_suffix target ''.tmp'' of
        Inl e \<Rightarrow> [mkdir_parents (parent target), (\<lambda>s. (Inl e, s))]
      | Inr tmp \<Rightarrow>
          [mkdir_parents (parent target), open_for m tmp, write_data tmp text_content,
           os_replace tmp target])"

fun is_OSError :: "py_exn \<Rightarrow> bool" where
  "is_OSError FileNotFoundError = True"
| "is_OSError FileExistsError = True"
| "is_OSError IsADirectoryError = True"
| "is_OSError NotADirectoryError = True"
| "is_OSError PermissionError = True"
| "is_OSError SameFileError = True"
| "is_OSError (OSError n msg) = True"
| "is_OSError e = False"

definition write_file :: "path \<Rightarrow> string \<Rightarrow> open_mode \<Rightarrow> fs \<Rightarrow> (py_exn + path) \<times> fs" where
  "write_file target text_content m s =
     (case run_steps (write_file_steps target text_content m) s of
        (Inl e, s') \<Rightarrow>
          (Inl (if is_OSError e
                then CodeAgentError (''Failed to write file '' @ render target @ '': '' @ exn_str e)
                else e), s')
      | (Inr u, s') \<Rightarrow> (Inr target, s'))"

section \<open>The file tools\<close>





subsection \<open>tools/read\_file\_tool.py\<close>

text \<open>
  \<^verbatim>\<open>
  def _run(self, file_path):
      if not file_path:
          return "X Error: 'file_path' cannot be empty."
      full_path = self.root / file_path
      if not full_path.exists():
          return f"X Error: File not found at {full_path}"
      if not full_path.is_file():
          return f"X Error: Path exists but is not a file: {full_path}"
      try:
          content = full_path.read_text(encoding="utf-8")
          return f"Content of {file_path}:\n\n---\n{content}\n---"
      except Exception as e:
          return f"X Error reading file: {e}"
  \<close>
\<close>


subsection \<open>tools/edit\_file\_tool.py\<close>


definition edit_replace :: "path \<Rightarrow> string \<Rightarrow> step" where
  "edit_replace p new_content = write_text p new_content"









text \<open>
  \<^verbatim>\<open>
  def _run(self, file_path, new_content, mode="replace"):
      full_path = self.root / file_path
      if not full_path.exists():
          return (f"X File not found: {full_path}", FileObject(full_path, "", "error"))
      try:
          backup_status = self._backup_file(full_path)
          edit_functions = {"replace": ..., "append": ..., "patch": ...}
          if mode not in edit_functions:
              return (f"X Unknown mode: {mode}", FileObject(full_path, "", "error"))
          edit_functions[mode](full_path, new_content)
          status = f"edited_{mode}"
          final_contents = full_path.read_text(encoding="utf-8")
          message = f"V Successfully {status} {full_path}"
          if backup_status == "backup_failed":
              message += " (! Backup failed!)"
          return (message, FileObject(full_path, final_contents, status))
      except Exception as e:
          return (f"X Error editing file: {e}", FileObject(full_path, "", "error"))
  \<close>
\<close>


subsection \<open>tools/new\_file\_tool.py\<close>




section \<open>What a step leaves alone\<close>

text \<open>
  \<open>same_but T s s'\<close>: outside the paths of \<open>T\<close> the file system \<open>s'\<close> has the nodes and
  the permissions of \<open>s\<close>, and everywhere its lookup errors, write limits and mode
  locks.
\<close>

definition same_but :: "path set \<Rightarrow> fs \<Rightarrow> fs \<Rightarrow> bool" where
  "same_but T s s' =
     ((\<forall>q. q \<notin> T \<longrightarrow>
          fs_lookup s' q = fs_lookup s q
          \<and> (q \<in> unwritable s') = (q \<in> unwritable s)
          \<and> (q \<in> unreadable s') = (q \<in> unreadable s))
      \<and> stat_errors s' = stat_errors s
      \<and> write_limit s' = write_limit s
      \<and> chmod_denied s' = chmod_denied s)"

section \<open>agents/base\_agent.py: the default tools\<close>

text \<open>
  The ten tool classes of \<^verbatim>\<open>code_agent.tools\<close> that \<^verbatim>\<open>create_default_tools\<close> builds, each
  with the fields its constructor sets: the resolved root directory, and the model
  handle for the two classes that declare a field \<^verbatim>\<open>llm\<close>.  \<^verbatim>\<open>GenerateTestTool\<close> and
  \<^verbatim>\<open>NotebookTool\<close> are given the handle as a keyword \<^verbatim>\<open>llm_instance\<close> they have no field
  for, and keep nothing of it.
\<close>

datatype 'l tool =
    ReadFileTool path
  | EditFileTool path
  | SearchExplainTool 'l path
  | LinkerTool path
  | NewFileTool path
  | GenerateTestTool path
  | FormatCodeTool path
  | NotebookTool path
  | GeneralChatTool 'l
  | RScriptTool

text \<open>The class attribute \<^verbatim>\<open>name\<close> of each tool.\<close>

fun tool_name :: "'l tool \<Rightarrow> string" where
  "tool_name (ReadFileTool r) = ''read-file''"
| "tool_name (EditFileTool r) = ''edit-file''"
| "tool_name (SearchExplainTool l r) = ''search-explain''"
| "tool_name (LinkerTool r) = ''linker''"
| "tool_name (NewFileTool r) = ''new-file''"
| "tool_name (GenerateTestTool r) = ''generate-test''"
| "tool_name (FormatCodeTool r) = ''format-code''"
| "tool_name (NotebookTool r) = ''notebook''"
| "tool_name (GeneralChatTool l) = ''general-chat''"
| "tool_name RScriptTool = ''r-script''"

subsection \<open>Path(root\_dir).expanduser().resolve()\<close>

text \<open>
  What the process knows of its surroundings when it resolves a path: the home
  directory of a user name as \<^verbatim>\<open>os.path.expanduser\<close> finds it (the empty name is the
  current user), and the working directory, which \<^verbatim>\<open>os.getcwd\<close> fails to give when it has
  been removed.
\<close>

record path_env =
  home_of :: "string \<rightharpoonup> string"
  getcwd :: "py_exn + path"

text \<open>A pure path: is it absolute, and its components.\<close>

definition pure_path :: "string \<Rightarrow> bool \<times> path" where
  "pure_path str = (str \<noteq> [] \<and> hd str = CHR ''/'', parse_parts str)"

text \<open>
  \<^verbatim>\<open>
  def expanduser(self):
      if (not (self._drv or self._root) and
          self._parts and self._parts[0][:1] == '~'):
          homedir = os.path.expanduser(self._parts[0])
          if homedir[:1] == "~":
              raise RuntimeError("Could not determine home directory.")
          return self._from_parts([homedir] + self._parts[1:])
      return self
  \<close>
  \<^verbatim>\<open>os.path.expanduser\<close> gives the name back unchanged when it finds no home directory.
\<close>

definition expanduser :: "path_env \<Rightarrow> bool \<times> path \<Rightarrow> py_exn + bool \<times> path" where
  "expanduser env pp =
     (case pp of (absolute, ps) \<Rightarrow>
        if \<not> absolute \<and> ps \<noteq> [] \<and> take 1 (hd ps) = ''~''
        then (case home_of env (drop 1 (hd ps)) of
                None \<Rightarrow> Inl (OtherError ''Could not determine home directory.'')
              | Some homedir \<Rightarrow>
                  if take 1 homedir = ''~''
                  then Inl (OtherError ''Could not determine home directory.'')
                  else Inr (fst (pure_path homedir), snd (pure_path homedir) @ tl ps))
        else Inr pp)"

text \<open>
  \<^verbatim>\<open>resolve()\<close> is \<^verbatim>\<open>os.path.realpath\<close>: the path is looked up component by component (a
  null byte raises \<^verbatim>\<open>ValueError\<close> there), made absolute from the working directory, and
  \<^verbatim>\<open>..\<close> steps back.  Symbolic links are not interpreted.
\<close>

fun dotdot :: "path \<Rightarrow> path \<Rightarrow> path" where
  "dotdot acc [] = acc"
| "dotdot acc (c # cs) = (if c = ''..'' then dotdot (butlast acc) cs else dotdot (acc @ [c]) cs)"

definition resolve :: "path_env \<Rightarrow> bool \<times> path \<Rightarrow> py_exn + path" where
  "resolve env pp =
     (case pp of (absolute, ps) \<Rightarrow>
        if \<exists>c \<in> set ps. CHR 0x00 \<in> set c then Inl ValueError
        else if absolute then Inr (dotdot [] ps)
        else (case getcwd env of
                Inl e \<Rightarrow> Inl e
              | Inr base \<Rightarrow> Inr (dotdot base ps)))"

definition tool_root :: "path_env \<Rightarrow> bool \<times> path \<Rightarrow> py_exn + path" where
  "tool_root env pp =
     (case expanduser env pp of
        Inl e \<Rightarrow> Inl e
      | Inr pp' \<Rightarrow> resolve env pp')"

text \<open>
  \<^verbatim>\<open>
  def create_default_tools(root_dir=None, llm=None):
      root_path = Path(root_dir) if root_dir else Path.cwd()
      standard_tools = [
          ReadFileTool(root_dir=root_path), EditFileTool(root_dir=root_path),
          (SearchExplainTool(root_dir=root_path, llm_instance=llm) if llm else None),
          LinkerTool(root_dir=root_path), NewFileTool(root_dir=root_path),
          (GenerateTestTool(root_dir=root_path, llm_instance=llm) if llm else None),
          FormatCodeTool(root_dir=root_path),
          (NotebookTool(root_dir=root_path, llm_instance=llm) if llm else None),
          (GeneralChatTool(llm_instance=llm) if llm else None), RScriptTool(), ]
      tools = [tool for tool in standard_tools if tool is not None]
      return tools
  \<close>
  The handle \<open>llm\<close> is \<^verbatim>\<open>None\<close> or a chat model object, which is true in a test.  Every
  constructor that takes the root resolves it anew, to the same path or the same
  exception; the first of them is the first element of the list, so a root that does
  not resolve ends the call before any tool is made.
\<close>

definition root_path :: "path_env \<Rightarrow> string option \<Rightarrow> py_exn + bool \<times> path" where
  "root_path env root_dir =
     (case root_dir of
        None \<Rightarrow> map_sum id (Pair True) (getcwd env)
      | Some str \<Rightarrow> if str = [] then map_sum id (Pair True) (getcwd env) else Inr (pure_path str))"

definition standard_tools :: "path \<Rightarrow> 'l option \<Rightarrow> 'l tool option list" where
  "standard_tools r llm =
     [Some (ReadFileTool r), Some (EditFileTool r),
      (case llm of Some l \<Rightarrow> Some (SearchExplainTool l r) | None \<Rightarrow> None),
      Some (LinkerTool r), Some (NewFileTool r),
      (case llm of Some l \<Rightarrow> Some (GenerateTestTool r) | None \<Rightarrow> None),
      Some (FormatCodeTool r),
      (case llm of Some l \<Rightarrow> Some (NotebookTool r) | None \<Rightarrow> None),
      (case llm of Some l \<Rightarrow> Some (GeneralChatTool l) | None \<Rightarrow> None),
      Some RScriptTool]"

definition create_default_tools ::
  "path_env \<Rightarrow> string option \<Rightarrow> 'l option \<Rightarrow> py_exn + 'l tool list" where
  "create_default_tools env root_dir llm =
     (case root_path env root_dir of
        Inl e \<Rightarrow> Inl e
      | Inr pp \<Rightarrow>
          (case tool_root env pp of
             Inl e \<Rightarrow> Inl e
           | Inr r \<Rightarrow> Inr (List.map_filter (\<lambda>t. t) (standard_tools r llm))))"

text \<open>The tools whose entry in the list stands under \<^verbatim>\<open>if llm\<close>.\<close>

fun needs_llm :: "'l tool \<Rightarrow> bool" where
  "needs_llm (SearchExplainTool l r) = True"
| "needs_llm (GenerateTestTool r) = True"
| "needs_llm (NotebookTool r) = True"
| "needs_llm (GeneralChatTool l) = True"
| "needs_llm t = False"

text \<open>A process that knows no user but its own, in the working directory \<^verbatim>\<open>/w\<close>.\<close>

definition env_plain :: path_env where
  "env_plain = \<lparr>home_of = [[] \<mapsto> ''/root''], getcwd = Inr [''w'']\<rparr>"

section \<open>cli.py: the chat loop\<close>

subsection \<open>str.strip and str.lower\<close>

text \<open>
  Text is held as its UTF-8 bytes.  \<open>ws_len s\<close> is the number of bytes of the white-space
  character \<open>s\<close> begins with, or 0: the characters \<^verbatim>\<open>str.isspace\<close> accepts, which are the
  ASCII ones 09 to 0D, 1C to 1F and 20, then \<^verbatim>\<open>U+0085\<close>, \<^verbatim>\<open>U+00A0\<close>, \<^verbatim>\<open>U+1680\<close>,
  \<^verbatim>\<open>U+2000\<close> to \<^verbatim>\<open>U+200A\<close>, \<^verbatim>\<open>U+2028\<close>, \<^verbatim>\<open>U+2029\<close>, \<^verbatim>\<open>U+202F\<close>, \<^verbatim>\<open>U+205F\<close> and \<^verbatim>\<open>U+3000\<close>.
\<close>

definition ascii_ws :: "char \<Rightarrow> bool" where
  "ascii_ws c =
     ((9 \<le> (of_char c :: nat) \<and> (of_char c :: nat) \<le> 13)
      \<or> (28 \<le> (of_char c :: nat) \<and> (of_char c :: nat) \<le> 32))"

definition ws_char :: "string \<Rightarrow> bool" where
  "ws_char w =
     (case w of
        [c] \<Rightarrow> ascii_ws c
      | [a, b] \<Rightarrow> a = CHR 0xC2 \<and> (b = CHR 0x85 \<or> b = CHR 0xA0)
      | [a, b, c] \<Rightarrow>
          (a = CHR 0xE1 \<and> b = CHR 0x9A \<and> c = CHR 0x80)
          \<or> (a = CHR 0xE2 \<and> b = CHR 0x80
               \<and> ((0x80 \<le> (of_char c :: nat) \<and> (of_char c :: nat) \<le> 0x8A)
                    \<or> c = CHR 0xA8 \<or> c = CHR 0xA9 \<or> c = CHR 0xAF))
          \<or> (a = CHR 0xE2 \<and> b = CHR 0x81 \<and> c = CHR 0x9F)
          \<or> (a = CHR 0xE3 \<and> b = CHR 0x80 \<and> c = CHR 0x80)
      | _ \<Rightarrow> False)"

definition ws_len :: "string \<Rightarrow> nat" where
  "ws_len s =
     (if 1 \<le> length s \<and> ws_char (take 1 s) then 1
      else if 2 \<le> length s \<and> ws_char (take 2 s) then 2
      else if 3 \<le> length s \<and> ws_char (take 3 s) then 3
      else 0)"

fun lstrip :: "string \<Rightarrow> string" where
  "lstrip [] = []"
| "lstrip (c # cs) =
     (if ws_len (c # cs) = 0 then c # cs else lstrip (drop (ws_len (c # cs) - 1) cs))"

text \<open>The same from the end: \<open>rstrip_rev\<close> works on the reversed bytes.\<close>

definition ws_rlen :: "string \<Rightarrow> nat" where
  "ws_rlen r =
     (if 1 \<le> length r \<and> ws_char (rev (take 1 r)) then 1
      else if 2 \<le> length r \<and> ws_char (rev (take 2 r)) then 2
      else if 3 \<le> length r \<and> ws_char (rev (take 3 r)) then 3
      else 0)"

fun rstrip_rev :: "string \<Rightarrow> string" where
  "rstrip_rev [] = []"
| "rstrip_rev (c # cs) =
     (if ws_rlen (c # cs) = 0 then c # cs else rstrip_rev (drop (ws_rlen (c # cs) - 1) cs))"

definition strip :: "string \<Rightarrow> string" where
  "strip s = rev (rstrip_rev (rev (lstrip s)))"

text \<open>
  \<^verbatim>\<open>str.lower\<close>, whose result the loop only compares with ASCII words: the ASCII capitals
  go to their small letters, and so do the two other characters whose lower case has
  an ASCII letter in it, \<^verbatim>\<open>U+212A\<close> (to \<^verbatim>\<open>k\<close>) and \<^verbatim>\<open>U+0130\<close> (to \<^verbatim>\<open>i\<close> and \<^verbatim>\<open>U+0307\<close>).  The
  bytes of every other character stay as they are; its lower case has no ASCII letter
  either.
\<close>

fun lower :: "string \<Rightarrow> string" where
  "lower [] = []"
| "lower (c # cs) =
     (if take 3 (c # cs) = [CHR 0xE2, CHR 0x84, CHR 0xAA] then CHR ''k'' # lower (drop 2 cs)
      else if take 2 (c # cs) = [CHR 0xC4, CHR 0xB0]
      then CHR ''i'' # CHR 0xCC # CHR 0x87 # lower (drop 1 cs)
      else (if 65 \<le> (of_char c :: nat) \<and> (of_char c :: nat) \<le> 90
            then char_of ((of_char c :: nat) + 32) else c) # lower cs)"

subsection \<open>The conversation and the agent\<close>

text \<open>
  The loop holds a dictionary with the one key \<^verbatim>\<open>messages\<close>, or \<^verbatim>\<open>None\<close>.  An entry of
  the list under that key is a pair like \<^verbatim>\<open>("human", text)\<close>, which the loop appends, or a
  message object, which the agent's answer brings.  The agent is a parameter: called
  with the conversation it raises or returns, and what it returns is a dictionary
  with a key \<^verbatim>\<open>messages\<close> or something else.
\<close>

datatype entry = Tuple string string | Msg message

type_synonym conversation = "entry list"

datatype response = StateDict conversation | OtherResponse

type_synonym 'w agent = "'w \<Rightarrow> conversation \<Rightarrow> (py_exn + response) \<times> 'w"

text \<open>
  \<^verbatim>\<open>
  def _handle_command(user_input, conversation_state, tools):
      if user_input.lower() in ["exit", "quit", "q"]:
          print("\nGoodbye!")
          return False, conversation_state
      if user_input.lower() == "help":
          ...
          return True, None
      if user_input.lower() == "clear":
          print("Conversation history cleared.\n")
          return True, None
      if user_input.lower() == "tools":
          ...
          return True, None
      if not user_input:
          return True, None
      return True, conversation_state
  \<close>
  What the shell prints is left out, and with it the list of tools, which is only
  printed.
\<close>

definition handle_command :: "string \<Rightarrow> conversation option \<Rightarrow> bool \<times> conversation option" where
  "handle_command user_input conversation_state =
     (if lower user_input \<in> {''exit'', ''quit'', ''q''} then (False, conversation_state)
      else if lower user_input = ''help'' then (True, None)
      else if lower user_input = ''clear'' then (True, None)
      else if lower user_input = ''tools'' then (True, None)
      else if user_input = [] then (True, None)
      else (True, conversation_state))"

text \<open>
  \<^verbatim>\<open>
  def _display_agent_response(response, conversation_state):
      if isinstance(response, dict) and "messages" in response:
          ...
          return response
      else:
          ...
          return conversation_state
  \<close>
\<close>

definition display_agent_response :: "response \<Rightarrow> conversation \<Rightarrow> conversation" where
  "display_agent_response resp conversation_state =
     (case resp of StateDict ms \<Rightarrow> ms | OtherResponse \<Rightarrow> conversation_state)"

text \<open>
  The state of the loop: the variable \<^verbatim>\<open>conversation_state\<close>, the world the agent acts
  on, the conversations the agent has been invoked with so far, and whether the loop
  still runs.
\<close>

record 'w shell =
  conversation_state :: "conversation option"
  world :: 'w
  invoked :: "conversation list"
  running :: bool

text \<open>
  One turn of the loop on the line \<^verbatim>\<open>input\<close> returns:
  \<^verbatim>\<open>
  user_input = input("You: ").strip()
  cont, conversation_state = _handle_command(user_input, conversation_state, tools)
  if not cont:
      break
  if conversation_state is None:
      continue
  conversation_state["messages"].append(("human", user_input))
  try:
      response = agent.invoke(conversation_state)
      conversation_state = _display_agent_response(response, conversation_state)
  except Exception as e:
      print(...)
      continue
  \<close>
  The pair is appended to the list in place, so it stays when the agent raises.
\<close>

definition chat_turn :: "'w agent \<Rightarrow> string \<Rightarrow> 'w shell \<Rightarrow> 'w shell" where
  "chat_turn agent line st =
     (let user_input = strip line in
      case handle_command user_input (conversation_state st) of
        (cont, cs) \<Rightarrow>
          if \<not> cont then st\<lparr>conversation_state := cs, running := False\<rparr>
          else (case cs of
                  None \<Rightarrow> st\<lparr>conversation_state := None\<rparr>
                | Some ms \<Rightarrow>
                    (let ms' = ms @ [Tuple ''human'' user_input] in
                     case agent (world st) ms' of
                       (Inl e, w') \<Rightarrow>
                         st\<lparr>conversation_state := Some ms', world := w',
                            invoked := invoked st @ [ms']\<rparr>
                     | (Inr resp, w') \<Rightarrow>
                         st\<lparr>conversation_state := Some (display_agent_response resp ms'),
                            world := w', invoked := invoked st @ [ms']\<rparr>)))"

text \<open>The loop over the lines typed, up to the \<^verbatim>\<open>break\<close>.\<close>

fun chat_loop :: "'w agent \<Rightarrow> string list \<Rightarrow> 'w shell \<Rightarrow> 'w shell" where
  "chat_loop agent [] st = st"
| "chat_loop agent (line # lines) st =
     (if running st then chat_loop agent lines (chat_turn agent line st) else st)"

text \<open>\<^verbatim>\<open>conversation_state = {"messages": []}\<close> before the loop.\<close>

definition chat_start :: "'w \<Rightarrow> 'w shell" where
  "chat_start w = \<lparr>conversation_state = Some [], world = w, invoked = [], running = True\<rparr>"

section \<open>agents/persistent\_agent.py: the state between sessions\<close>

text \<open>
  The values of the \<^verbatim>\<open>json\<close> module.  An object keeps its pairs in the order of the text;
  of two pairs with one key the later one counts, as in the dictionary Python builds.
\<close>

datatype json =
    JNull
  | JBool bool
  | JNum int
  | JStr string
  | JList "json list"
  | JDict "(string \<times> json) list"




















section \<open>File systems used as examples\<close>


text \<open>The same directory and file, with nothing forbidden.\<close>

definition fs_plain :: fs where
  "fs_plain =
     \<lparr>nodes = [[''w''] \<mapsto> Dir, [''w'', ''a.txt''] \<mapsto> File ''hello''],
      unwritable = {}, unreadable = {},
      stat_errors = Map.empty, write_limit = Map.empty, chmod_denied = {}\<rparr>"



section \<open>The control loop: routing and the model call\<close>

lemma should_continue_snoc:
  "should_continue \<lparr>messages = ms @ [r]\<rparr> = Inr (if requests_tools r then Action else END)"
  by (simp add: should_continue_def)


lemma graph_run_halts:
  assumes "model w (messages st) = (Inr r, w')" and "\<not> requests_tools r"
  shows "graph_run (Suc n) model action k w st = (Done \<lparr>messages = messages st @ [r]\<rparr>, w', Suc k)"
  using assms by (simp add: call_llm_def should_continue_snoc)




lemma call_llm_returns:
  assumes "call_llm st model w = (Inr st', w')"
  shows "\<exists>r. model w (messages st) = (Inr r, w') \<and> messages st' = messages st @ [r]"
  using assms by (auto simp: call_llm_def split: prod.splits sum.splits)

text \<open>
  C2.  Whenever \<open>call_llm\<close> returns a state, its messages are the input's messages with
  the model's reply appended: one element longer, the old messages an unchanged prefix,
  each at its old index.  It returns whenever the model does, and the appended message
  is an assistant message whenever the model's reply is one.
\<close>

theorem call_llm_appends_one:
  "(call_llm st model w = (Inr st', w') \<longrightarrow>
      (\<exists>r. model w (messages st) = (Inr r, w') \<and> messages st' = messages st @ [r])
      \<and> length (messages st') = Suc (length (messages st))
      \<and> take (length (messages st)) (messages st') = messages st
      \<and> (\<forall>i. i < length (messages st) \<longrightarrow> messages st' ! i = messages st ! i))
   \<and> (model w (messages st) = (Inr r, w') \<longrightarrow>
        call_llm st model w = (Inr \<lparr>messages = messages st @ [r]\<rparr>, w')
        \<and> (is_AIMessage r \<longrightarrow> is_AIMessage (last (messages st @ [r]))))"
proof (intro conjI impI)
  assume a: "call_llm st model w = (Inr st', w')"
  from call_llm_returns [OF a] obtain r
    where r: "model w (messages st) = (Inr r, w')" "messages st' = messages st @ [r]"
    by blast
  from r show "\<exists>r. model w (messages st) = (Inr r, w') \<and> messages st' = messages st @ [r]"
    by blast
  from r show "length (messages st') = Suc (length (messages st))" by simp
  from r show "take (length (messages st)) (messages st') = messages st" by simp
  from r show "\<forall>i. i < length (messages st) \<longrightarrow> messages st' ! i = messages st ! i"
    by (simp add: nth_append)
next
  assume "model w (messages st) = (Inr r, w')"
  then show "call_llm st model w = (Inr \<lparr>messages = messages st @ [r]\<rparr>, w')"
    by (simp add: call_llm_def)
next
  assume "is_AIMessage r"
  then show "is_AIMessage (last (messages st @ [r]))" by simp
qed

theorem call_llm_appends_one_witness:
  "call_llm \<lparr>messages = [HumanMessage ''hi'']\<rparr> (\<lambda>w ms. (Inr (AIMessage ''hello'' []), Suc w)) (0::nat)
     = (Inr \<lparr>messages = [HumanMessage ''hi'', AIMessage ''hello'' []]\<rparr>, 1)
   \<and> is_AIMessage (last [HumanMessage ''hi'', AIMessage ''hello'' []])
   \<and> length [HumanMessage ''hi'', AIMessage ''hello'' []] = Suc (length [HumanMessage ''hi''])
   \<and> take (length [HumanMessage ''hi'']) [HumanMessage ''hi'', AIMessage ''hello'' []]
       = [HumanMessage ''hi'']"
  using call_llm_appends_one [where st = "\<lparr>messages = [HumanMessage ''hi'']\<rparr>"
      and model = "\<lambda>w ms. (Inr (AIMessage ''hello'' []), Suc w)" and w = "0::nat"
      and r = "AIMessage ''hello'' []" and w' = "1::nat"
      and st' = "\<lparr>messages = [HumanMessage ''hi'', AIMessage ''hello'' []]\<rparr>"]
  by simp

lemma fallback_generate_quiet: "\<not> requests_tools (fallback_generate json_str err url msgs)"
  by (simp add: fallback_generate_def)

text \<open>
  C4.  When the backend cannot be initialised, \<open>create_llm\<close> returns the fallback.  For
  every message list the fallback's reply is an assistant message with no tool-call
  request, whose text is not empty and starts with the JSON key \<^verbatim>\<open>error\<close> and the value
  \<^verbatim>\<open>LLM unavailable\<close>.  The graph built on the fallback ends after one model call,
  for every fuel of at least one, with that reply appended, and raises nothing.
\<close>

theorem fallback_llm_reports_and_halts:
  "(ChatOllama (cfg_get cfg ''ollama_model'' ''gpt-oss:20b-cloud'')
       (cfg_get cfg ''ollama_scheme'' ''http'' @ ''://'' @ cfg_get cfg ''ollama_host'' ''localhost''
          @ '':'' @ cfg_get cfg ''ollama_port'' ''11434'')
       (cfg_get cfg ''temperature'' ''0.7'') = Inl exc \<longrightarrow>
      create_llm cfg ChatOllama
        = FallbackLLM exc
            (cfg_get cfg ''ollama_scheme'' ''http'' @ ''://'' @ cfg_get cfg ''ollama_host'' ''localhost''
               @ '':'' @ cfg_get cfg ''ollama_port'' ''11434''))
   \<and> (\<exists>rest. fallback_generate json_str err url msgs
          = AIMessage (''{'' @ dq @ ''error'' @ dq @ '': '' @ dq @ ''LLM unavailable'' @ dq @ rest) [])
   \<and> content (fallback_generate json_str err url msgs) \<noteq> []
   \<and> is_AIMessage (fallback_generate json_str err url msgs)
   \<and> \<not> requests_tools (fallback_generate json_str err url msgs)
   \<and> bind_tools json_str live (FallbackLLM err url) w msgs
       = (Inr (fallback_generate json_str err url msgs), w)
   \<and> build_graph (bind_tools json_str live (FallbackLLM err url)) action (Suc n) w st
       = (Done \<lparr>messages = messages st @ [fallback_generate json_str err url (messages st)]\<rparr>, w, 1)"
proof (intro conjI impI)
  assume "ChatOllama (cfg_get cfg ''ollama_model'' ''gpt-oss:20b-cloud'')
       (cfg_get cfg ''ollama_scheme'' ''http'' @ ''://'' @ cfg_get cfg ''ollama_host'' ''localhost''
          @ '':'' @ cfg_get cfg ''ollama_port'' ''11434'')
       (cfg_get cfg ''temperature'' ''0.7'') = Inl exc"
  then show "create_llm cfg ChatOllama
        = FallbackLLM exc
            (cfg_get cfg ''ollama_scheme'' ''http'' @ ''://'' @ cfg_get cfg ''ollama_host'' ''localhost''
               @ '':'' @ cfg_get cfg ''ollama_port'' ''11434'')"
    by (simp add: create_llm_def Let_def)
next
  show "\<exists>rest. fallback_generate json_str err url msgs
          = AIMessage (''{'' @ dq @ ''error'' @ dq @ '': '' @ dq @ ''LLM unavailable'' @ dq @ rest) []"
    by (simp add: fallback_generate_def)
next
  show "content (fallback_generate json_str err url msgs) \<noteq> []"
    by (simp add: fallback_generate_def)
next
  show "is_AIMessage (fallback_generate json_str err url msgs)"
    by (simp add: fallback_generate_def)
next
  show "\<not> requests_tools (fallback_generate json_str err url msgs)"
    by (rule fallback_generate_quiet)
next
  show b: "bind_tools json_str live (FallbackLLM err url) w msgs
       = (Inr (fallback_generate json_str err url msgs), w)"
    by (simp add: bind_tools_def)
next
  have "bind_tools json_str live (FallbackLLM err url) w (messages st)
       = (Inr (fallback_generate json_str err url (messages st)), w)"
    by (simp add: bind_tools_def)
  with graph_run_halts
    [where model = "bind_tools json_str live (FallbackLLM err url)" and w = w and st = st
       and r = "fallback_generate json_str err url (messages st)" and w' = w and n = n
       and action = action and k = 0]
  show "build_graph (bind_tools json_str live (FallbackLLM err url)) action (Suc n) w st
       = (Done \<lparr>messages = messages st @ [fallback_generate json_str err url (messages st)]\<rparr>, w, 1)"
    by (simp del: graph_run.simps add: build_graph_def fallback_generate_quiet)
qed

theorem fallback_llm_reports_and_halts_witness:
  "create_llm Map.empty (\<lambda>m u t. (Inl (OtherError ''connection refused'') :: py_exn + unit))
     = FallbackLLM (OtherError ''connection refused'') ''http://localhost:11434''
   \<and> build_graph
        (bind_tools (\<lambda>s. dq @ s @ dq) (\<lambda>l w ms. (Inl ValueError, w))
           (create_llm Map.empty (\<lambda>m u t. (Inl (OtherError ''connection refused'') :: py_exn + unit))))
        (\<lambda>w ms. (Inr ms, w)) (Suc 0) (0::nat) \<lparr>messages = [HumanMessage ''hi'']\<rparr>
     = (Done \<lparr>messages = [HumanMessage ''hi'',
          fallback_generate (\<lambda>s. dq @ s @ dq) (OtherError ''connection refused'')
            ''http://localhost:11434'' [HumanMessage ''hi'']]\<rparr>, 0, 1)"
proof -
  have c: "create_llm Map.empty (\<lambda>m u t. (Inl (OtherError ''connection refused'') :: py_exn + unit))
     = FallbackLLM (OtherError ''connection refused'') ''http://localhost:11434''"
    using fallback_llm_reports_and_halts
      [where cfg = Map.empty and exc = "OtherError ''connection refused''"
         and ChatOllama = "\<lambda>m u t. (Inl (OtherError ''connection refused'') :: py_exn + unit)",
         THEN conjunct1]
    by (simp add: cfg_get_def)
  show ?thesis
    unfolding c
    using fallback_llm_reports_and_halts
      [where json_str = "\<lambda>s. dq @ s @ dq" and err = "OtherError ''connection refused''"
         and url = "''http://localhost:11434''" and st = "\<lparr>messages = [HumanMessage ''hi'']\<rparr>"
         and w = "0::nat" and n = 0 and action = "\<lambda>w ms. (Inr ms, w)"
         and live = "\<lambda>l w ms. (Inl ValueError, w)",
         THEN conjunct2, THEN conjunct2, THEN conjunct2, THEN conjunct2, THEN conjunct2,
         THEN conjunct2]
    by simp
qed

section \<open>Facts about the file-system steps\<close>

lemma fs_lookup_update:
  "p \<noteq> [] \<Longrightarrow> fs_lookup (s\<lparr>nodes := (nodes s)(p \<mapsto> n)\<rparr>) q = (if q = p then Some n else fs_lookup s q)"
  by (simp add: fs_lookup_def)

lemma open_error_nonempty: "open_error s p = None \<Longrightarrow> p \<noteq> []"
  by (auto simp: open_error_def fs_lookup_def split: if_splits)


subsection \<open>Frames\<close>

lemma same_but_refl: "same_but T s s"
  by (simp add: same_but_def)

lemma same_but_trans:
  "same_but T s s1 \<Longrightarrow> same_but T s1 s2 \<Longrightarrow> same_but T s s2"
  by (simp add: same_but_def)

lemma same_but_mono: "same_but T s s1 \<Longrightarrow> T \<subseteq> U \<Longrightarrow> same_but U s s1"
  by (auto simp add: same_but_def)

lemma same_but_lookup: "same_but T s s1 \<Longrightarrow> q \<notin> T \<Longrightarrow> fs_lookup s1 q = fs_lookup s q"
  by (simp add: same_but_def)

lemma same_but_unreadable:
  "same_but T s s1 \<Longrightarrow> q \<notin> T \<Longrightarrow> (q \<in> unreadable s1) = (q \<in> unreadable s)"
  by (simp add: same_but_def)

lemma same_but_unwritable:
  "same_but T s s1 \<Longrightarrow> q \<notin> T \<Longrightarrow> (q \<in> unwritable s1) = (q \<in> unwritable s)"
  by (simp add: same_but_def)

lemma same_but_stat_errors: "same_but T s s1 \<Longrightarrow> stat_errors s1 = stat_errors s"
  by (simp add: same_but_def)

lemma same_but_stat: "same_but T s s1 \<Longrightarrow> q \<notin> T \<Longrightarrow> os_stat s1 q = os_stat s q"
  by (simp add: os_stat_def same_but_stat_errors same_but_lookup split: option.splits)

lemma same_but_exists: "same_but T s s1 \<Longrightarrow> q \<notin> T \<Longrightarrow> path_exists s1 q = path_exists s q"
  by (simp add: path_exists_def same_but_stat)

lemma same_but_read_bytes:
  "same_but T s s1 \<Longrightarrow> q \<notin> T \<Longrightarrow> read_bytes q s1 = read_bytes q s"
  by (simp add: read_bytes_def same_but_stat same_but_unreadable split: sum.splits node.splits)



lemma same_but_node:
  "p \<noteq> [] \<Longrightarrow> same_but {p} s (s\<lparr>nodes := (nodes s)(p \<mapsto> n)\<rparr>)"
  by (simp add: same_but_def fs_lookup_def)

lemma open_for_frame: "same_but {p} s (snd (open_for m p s))"
proof (cases "open_error s p")
  case None
  then have "p \<noteq> []" by (rule open_error_nonempty)
  with None show ?thesis
    by (cases m) (auto simp add: open_for_def same_but_node same_but_refl split: option.splits)
next
  case (Some e)
  then show ?thesis by (simp add: open_for_def same_but_refl)
qed

lemma write_data_frame: "same_but {p} s (snd (write_data p c s))"
proof (cases "p = []")
  case True
  then show ?thesis by (simp add: write_data_def fs_lookup_def same_but_refl)
next
  case False
  then show ?thesis
    by (auto simp add: write_data_def same_but_node same_but_refl
        split: option.splits node.splits)
qed

lemma run_steps_two_frame:
  assumes "\<And>s. same_but T s (snd (f s))" and "\<And>s. same_but T s (snd (g s))"
  shows "same_but T s (snd (run_steps [f, g] s))"
proof -
  obtain r1 s1 where f: "f s = (r1, s1)" by (cases "f s")
  obtain r2 s2 where g: "g s1 = (r2, s2)" by (cases "g s1")
  from assms(1) [of s] f have 1: "same_but T s s1" by simp
  from assms(2) [of s1] g have 2: "same_but T s1 s2" by simp
  from f g 1 same_but_trans [OF 1 2] show ?thesis
    by (cases r1; cases r2) simp_all
qed

lemma write_text_frame: "same_but {p} s (snd (write_text p c s))"
  unfolding write_text_def write_text_steps_def
  by (rule run_steps_two_frame) (rule open_for_frame, rule write_data_frame)

lemma write_text_other:
  "q \<noteq> p \<Longrightarrow> fs_lookup (snd (write_text p c s)) q = fs_lookup s q"
  using same_but_lookup [OF write_text_frame, of q p c s] by simp

lemma write_text_ok:
  "open_error s p = None \<Longrightarrow> fits s p c \<Longrightarrow>
     write_text p c s = (Inr (), s\<lparr>nodes := (nodes s)(p \<mapsto> File c)\<rparr>)"
  by (frule open_error_nonempty)
     (auto simp add: write_text_def write_text_steps_def open_for_def write_data_def
        fs_lookup_def fits_def split: option.splits)


lemma mkdirs_frame: "same_but (set qs) s (snd (mkdirs qs s))"
proof (induction qs arbitrary: s)
  case Nil
  then show ?case by (simp add: same_but_refl)
next
  case (Cons a qs)
  show ?case
  proof (cases "stat_errors s a")
    case (Some e)
    then show ?thesis by (simp add: same_but_refl)
  next
    case None
    note ne = None
    show ?thesis
    proof (cases "fs_lookup s a")
      case None
      then have a: "a \<noteq> []" by (auto simp: fs_lookup_def split: if_splits)
      show ?thesis
      proof (cases "a \<in> unwritable s")
        case True
        with None ne show ?thesis by (simp add: same_but_refl)
      next
        case False
        have 1: "same_but (set (a # qs)) s (s\<lparr>nodes := (nodes s)(a \<mapsto> Dir)\<rparr>)"
          by (rule same_but_mono [OF same_but_node [OF a]]) simp
        have 2: "same_but (set (a # qs)) (s\<lparr>nodes := (nodes s)(a \<mapsto> Dir)\<rparr>)
                   (snd (mkdirs qs (s\<lparr>nodes := (nodes s)(a \<mapsto> Dir)\<rparr>)))"
          by (rule same_but_mono [OF Cons.IH]) auto
        from None ne False same_but_trans [OF 1 2] show ?thesis by simp
      qed
    next
      case (Some n)
      have "same_but (set (a # qs)) s (snd (mkdirs qs s))"
        by (rule same_but_mono [OF Cons.IH]) auto
      with Some ne show ?thesis by (cases n) (simp_all add: same_but_refl)
    qed
  qed
qed

lemma mkdir_parents_frame:
  "same_but {q. length q \<le> length p} s (snd (mkdir_parents p s))"
  unfolding mkdir_parents_def
  by (rule same_but_mono [OF mkdirs_frame]) auto

lemma mkdir_parents_other:
  "length p < length q \<Longrightarrow> fs_lookup (snd (mkdir_parents p s)) q = fs_lookup s q"
  by (rule same_but_lookup [OF mkdir_parents_frame]) simp



subsection \<open>Paths of backups\<close>





subsection \<open>shutil.copy\<close>








subsection \<open>The edit functions\<close>









section \<open>The edit-file tool with a mode it does not know\<close>


lemma copy_target_not_parent:
  "parent p \<noteq> copy_target s p (butlast p @ [name p @ ''.bak''])"
proof -
  have "length (parent p) < length (copy_target s p (butlast p @ [name p @ ''.bak'']))"
    by (simp add: copy_target_def parent_def)
  then show ?thesis by auto
qed






section \<open>Backup before overwrite\<close>










section \<open>Missing targets and empty paths\<close>









section \<open>Writing through a temporary file, and writing in place\<close>

lemma with_suffix_nonempty:
  "with_suffix target sfx = Inr tmp \<Longrightarrow> target \<noteq> [] \<and> tmp \<noteq> []"
  by (auto simp add: with_suffix_def name_def split: if_splits)

lemma open_for_other:
  "tmp \<noteq> q \<Longrightarrow> fs_lookup (snd (open_for m tmp s)) q = fs_lookup s q"
  using same_but_lookup [OF open_for_frame, of q tmp m s] by simp

lemma open_for_w_created:
  "tmp \<noteq> [] \<Longrightarrow> open_for ModeW tmp s = (Inr u, s') \<Longrightarrow> fs_lookup s' tmp = Some (File [])"
  by (auto simp add: open_for_def fs_lookup_def split: option.splits)

lemma write_data_other:
  "tmp \<noteq> q \<Longrightarrow> fs_lookup (snd (write_data tmp c s)) q = fs_lookup s q"
  using same_but_lookup [OF write_data_frame, of q tmp c s] by simp

lemma write_data_written:
  "tmp \<noteq> [] \<Longrightarrow> fs_lookup s tmp = Some (File old) \<Longrightarrow> write_data tmp c s = (Inr u, s') \<Longrightarrow>
     fs_lookup s' tmp = Some (File (old @ c))"
  by (auto simp add: write_data_def fs_lookup_def split: option.splits if_splits)

lemma os_replace_fails: "os_replace src dst s = (Inl e, s') \<Longrightarrow> s' = s"
  by (auto simp add: os_replace_def split: option.splits sum.splits if_splits)

lemma os_replace_moves:
  "src \<noteq> dst \<Longrightarrow> dst \<noteq> [] \<Longrightarrow> os_replace src dst s = (Inr u, s') \<Longrightarrow>
     fs_lookup s' dst = fs_lookup s src"
  by (auto simp add: os_replace_def os_stat_def fs_lookup_def
      split: option.splits sum.splits if_splits)

text \<open>The states \<open>write_file\<close> passes through, and what the target holds in each.\<close>

lemma write_file_states:
  assumes ws: "with_suffix target ''.tmp'' = Inr tmp" and d: "tmp \<noteq> target"
    and A: "mkdir_parents (parent target) s = (r1, s1)"
    and B: "open_for ModeW tmp s1 = (r2, s2)"
    and C: "write_data tmp c s2 = (r3, s3)"
    and D: "os_replace tmp target s3 = (r4, s4)"
  shows "fs_lookup s1 target = fs_lookup s target"
    and "fs_lookup s2 target = fs_lookup s target"
    and "fs_lookup s3 target = fs_lookup s target"
    and "r2 = Inr u2 \<Longrightarrow> r3 = Inr u3 \<Longrightarrow> r4 = Inr u4 \<Longrightarrow> fs_lookup s4 target = Some (File c)"
    and "r4 = Inl e \<Longrightarrow> fs_lookup s4 target = fs_lookup s target"
proof -
  from with_suffix_nonempty [OF ws] have t: "target \<noteq> []" and n: "tmp \<noteq> []" by simp_all
  have "length (parent target) < length target" using t by (simp add: parent_def)
  from mkdir_parents_other [OF this, of s] A
  show 1: "fs_lookup s1 target = fs_lookup s target" by simp
  from open_for_other [OF d, of ModeW s1] B 1
  show 2: "fs_lookup s2 target = fs_lookup s target" by simp
  from write_data_other [OF d, of c s2] C 2
  show 3: "fs_lookup s3 target = fs_lookup s target" by simp
  {
    assume "r2 = Inr u2" and r3: "r3 = Inr u3" and r4: "r4 = Inr u4"
    with B have "fs_lookup s2 tmp = Some (File [])" using open_for_w_created [OF n] by simp
    from write_data_written [OF n this C [unfolded r3]]
    have "fs_lookup s3 tmp = Some (File c)" by simp
    moreover have "fs_lookup s4 target = fs_lookup s3 tmp"
      using os_replace_moves [OF d t] D r4 by simp
    ultimately show "fs_lookup s4 target = Some (File c)" by simp
  }
  {
    assume "r4 = Inl e"
    with D have "s4 = s3" using os_replace_fails by simp
    with 3 show "fs_lookup s4 target = fs_lookup s target" by simp
  }
qed

lemma write_file_trace:
  assumes ws: "with_suffix target ''.tmp'' = Inr tmp" and d: "tmp \<noteq> target"
    and m: "s' \<in> set (trace (write_file_steps target c ModeW) s)"
  shows "fs_lookup s' target = fs_lookup s target \<or> fs_lookup s' target = Some (File c)"
proof -
  obtain r1 s1 where A: "mkdir_parents (parent target) s = (r1, s1)"
    by (cases "mkdir_parents (parent target) s")
  obtain r2 s2 where B: "open_for ModeW tmp s1 = (r2, s2)" by (cases "open_for ModeW tmp s1")
  obtain r3 s3 where C: "write_data tmp c s2 = (r3, s3)" by (cases "write_data tmp c s2")
  obtain r4 s4 where D: "os_replace tmp target s3 = (r4, s4)"
    by (cases "os_replace tmp target s3")
  note st = write_file_states [OF ws d A B C D]
  have "s' \<in> {s, s1, s2, s3, s4}"
    using m A B C D
    by (cases r1; cases r2; cases r3; cases r4) (auto simp add: write_file_steps_def ws)
  moreover have "fs_lookup s4 target = fs_lookup s target \<or> fs_lookup s4 target = Some (File c)"
    if "s' = s4" "s' \<noteq> s3" "s' \<noteq> s2" "s' \<noteq> s1" "s' \<noteq> s"
  proof (cases r4)
    case (Inl e)
    then show ?thesis using st(5) by simp
  next
    case (Inr u4)
    have "\<exists>u2. r2 = Inr u2"
    proof (cases r2)
      case (Inl e2)
      with m A B that show ?thesis
        by (cases r1) (auto simp add: write_file_steps_def ws)
    next
      case (Inr u2)
      then show ?thesis by simp
    qed
    moreover have "\<exists>u3. r3 = Inr u3"
    proof (cases r3)
      case (Inl e3)
      with m A B C that show ?thesis
        by (cases r1; cases r2) (auto simp add: write_file_steps_def ws)
    next
      case (Inr u3)
      then show ?thesis by simp
    qed
    ultimately show ?thesis using Inr st(4) by blast
  qed
  ultimately show ?thesis using st(1,2,3) by auto
qed

lemma write_text_truncates:
  assumes "open_error s p = None"
  shows "fs_lookup (trace (write_text_steps p c) s ! 1) p = Some (File [])"
proof -
  have "p \<noteq> []" using assms by (rule open_error_nonempty)
  then show ?thesis
    using assms by (simp add: write_text_steps_def open_for_def fs_lookup_def)
qed

text \<open>
  C3, as the claim states it, fails for the edit-file tool: \<^verbatim>\<open>_edit_replace\<close> is
  \<^verbatim>\<open>path.write_text\<close>, which opens the target itself for writing.  Replacing the text
  \<^verbatim>\<open>hello\<close> of \<^verbatim>\<open>/w/a.txt\<close> by \<^verbatim>\<open>world\<close>, the state between the open and the write has an
  empty target: neither the previous text nor the new one.
\<close>

theorem edit_replace_in_place_counterexample:
  "edit_replace [''w'', ''a.txt''] ''world''
     = run_steps (write_text_steps [''w'', ''a.txt''] ''world'')
   \<and> fs_lookup fs_plain [''w'', ''a.txt''] = Some (File ''hello'')
   \<and> fs_lookup (snd (edit_replace [''w'', ''a.txt''] ''world'' fs_plain)) [''w'', ''a.txt'']
       = Some (File ''world'')
   \<and> trace (write_text_steps [''w'', ''a.txt''] ''world'') fs_plain ! 1
       \<in> set (trace (write_text_steps [''w'', ''a.txt''] ''world'') fs_plain)
   \<and> fs_lookup (trace (write_text_steps [''w'', ''a.txt''] ''world'') fs_plain ! 1)
        [''w'', ''a.txt''] = Some (File [])"
proof -
  have oe: "open_error fs_plain [''w'', ''a.txt''] = None"
    by (simp add: open_error_def fs_lookup_def fs_plain_def parent_def)
  have ft: "fits fs_plain [''w'', ''a.txt''] ''world''"
    by (simp add: fits_def fs_plain_def)
  have 1: "edit_replace [''w'', ''a.txt''] ''world''
             = run_steps (write_text_steps [''w'', ''a.txt''] ''world'')"
    by (rule ext) (simp add: edit_replace_def write_text_def)
  have 2: "fs_lookup fs_plain [''w'', ''a.txt''] = Some (File ''hello'')"
    by (simp add: fs_lookup_def fs_plain_def)
  have 3: "fs_lookup (snd (edit_replace [''w'', ''a.txt''] ''world'' fs_plain)) [''w'', ''a.txt'']
             = Some (File ''world'')"
    by (simp add: edit_replace_def write_text_ok [OF oe ft] fs_lookup_def)
  have 4: "trace (write_text_steps [''w'', ''a.txt''] ''world'') fs_plain ! 1
             \<in> set (trace (write_text_steps [''w'', ''a.txt''] ''world'') fs_plain)"
    using oe by (simp add: write_text_steps_def open_for_def)
  have 5: "fs_lookup (trace (write_text_steps [''w'', ''a.txt''] ''world'') fs_plain ! 1)
             [''w'', ''a.txt''] = Some (File [])"
    using oe by (rule write_text_truncates)
  from 1 2 3 4 5 show ?thesis by blast
qed

lemma write_file_result:
  assumes ws: "with_suffix target ''.tmp'' = Inr tmp" and d: "tmp \<noteq> target"
  shows "write_file target c ModeW s = (Inr t, s') \<Longrightarrow>
           t = target \<and> fs_lookup s' target = Some (File c)"
    and "write_file target c ModeW s = (Inl e, s') \<Longrightarrow> fs_lookup s' target = fs_lookup s target"
proof -
  obtain r1 s1 where A: "mkdir_parents (parent target) s = (r1, s1)"
    by (cases "mkdir_parents (parent target) s")
  obtain r2 s2 where B: "open_for ModeW tmp s1 = (r2, s2)" by (cases "open_for ModeW tmp s1")
  obtain r3 s3 where C: "write_data tmp c s2 = (r3, s3)" by (cases "write_data tmp c s2")
  obtain r4 s4 where D: "os_replace tmp target s3 = (r4, s4)"
    by (cases "os_replace tmp target s3")
  note st = write_file_states [OF ws d A B C D]
  have run: "run_steps (write_file_steps target c ModeW) s =
               (case r1 of Inl x \<Rightarrow> (Inl x, s1)
                | Inr u \<Rightarrow> (case r2 of Inl x \<Rightarrow> (Inl x, s2)
                   | Inr u \<Rightarrow> (case r3 of Inl x \<Rightarrow> (Inl x, s3)
                      | Inr u \<Rightarrow> (case r4 of Inl x \<Rightarrow> (Inl x, s4) | Inr u \<Rightarrow> (Inr (), s4)))))"
    using A B C D by (simp add: write_file_steps_def ws split: sum.splits)
  {
    assume "write_file target c ModeW s = (Inr t, s')"
    then have "t = target \<and> s' = s4 \<and> (\<exists>u2. r2 = Inr u2) \<and> (\<exists>u3. r3 = Inr u3)
        \<and> (\<exists>u4. r4 = Inr u4)"
      unfolding write_file_def run by (auto split: sum.splits)
    with st(4) show "t = target \<and> fs_lookup s' target = Some (File c)" by blast
  }
  {
    assume "write_file target c ModeW s = (Inl e, s')"
    then have "s' = s1 \<or> s' = s2 \<or> s' = s3 \<or> (s' = s4 \<and> (\<exists>x. r4 = Inl x))"
      unfolding write_file_def run by (auto split: sum.splits)
    with st(1,2,3,5) show "fs_lookup s' target = fs_lookup s target" by auto
  }
qed

text \<open>
  C3, amended.  \<^verbatim>\<open>write_file\<close> of \<^verbatim>\<open>file_generator.py\<close>, in its default mode \<^verbatim>\<open>w\<close> and on a
  target whose temporary path (the target with the suffix \<^verbatim>\<open>.tmp\<close>) is another path,
  writes through the temporary file: in every state it passes through the target
  holds what it held before or the complete new text; when it returns, the target
  holds the new text; when it raises, the target holds what it held before.

  The tools do not write that way.  The edit-file tool's replace is the in-place write
  of \<^verbatim>\<open>Path.write_text\<close>: whenever the target can be opened, the state after the open
  has an empty target.
\<close>

theorem write_file_is_atomic:
  "(with_suffix target ''.tmp'' = Inr tmp \<and> tmp \<noteq> target \<longrightarrow>
      (\<forall>s' \<in> set (trace (write_file_steps target c ModeW) s).
          fs_lookup s' target = fs_lookup s target \<or> fs_lookup s' target = Some (File c))
      \<and> (\<forall>t s'. write_file target c ModeW s = (Inr t, s') \<longrightarrow>
            t = target \<and> fs_lookup s' target = Some (File c))
      \<and> (\<forall>e s'. write_file target c ModeW s = (Inl e, s') \<longrightarrow>
            fs_lookup s' target = fs_lookup s target))
   \<and> edit_replace p c = run_steps (write_text_steps p c)
   \<and> (open_error s p = None \<longrightarrow>
        fs_lookup (trace (write_text_steps p c) s ! 1) p = Some (File []))"
proof (intro conjI impI ballI allI)
  fix s'
  assume "with_suffix target ''.tmp'' = Inr tmp \<and> tmp \<noteq> target"
    and "s' \<in> set (trace (write_file_steps target c ModeW) s)"
  then show "fs_lookup s' target = fs_lookup s target \<or> fs_lookup s' target = Some (File c)"
    using write_file_trace by blast
next
  fix t s'
  assume "with_suffix target ''.tmp'' = Inr tmp \<and> tmp \<noteq> target"
    and "write_file target c ModeW s = (Inr t, s')"
  then show "t = target" using write_file_result(1) by blast
next
  fix t s'
  assume "with_suffix target ''.tmp'' = Inr tmp \<and> tmp \<noteq> target"
    and "write_file target c ModeW s = (Inr t, s')"
  then show "fs_lookup s' target = Some (File c)" using write_file_result(1) by blast
next
  fix e s'
  assume "with_suffix target ''.tmp'' = Inr tmp \<and> tmp \<noteq> target"
    and "write_file target c ModeW s = (Inl e, s')"
  then show "fs_lookup s' target = fs_lookup s target" using write_file_result(2) by blast
next
  show "edit_replace p c = run_steps (write_text_steps p c)"
    by (rule ext) (simp add: edit_replace_def write_text_def)
next
  assume "open_error s p = None"
  then show "fs_lookup (trace (write_text_steps p c) s ! 1) p = Some (File [])"
    by (rule write_text_truncates)
qed

lemma with_suffix_a_txt: "with_suffix [''w'', ''a.txt''] ''.tmp'' = Inr [''w'', ''a.tmp'']"
  by code_simp

lemma mkdir_parents_w_plain: "mkdir_parents [''w''] fs_plain = (Inr (), fs_plain)"
  by (simp add: mkdir_parents_def fs_lookup_def fs_plain_def)

lemma write_file_a_txt:
  "fst (write_file [''w'', ''a.txt''] ''world'' ModeW fs_plain) = Inr [''w'', ''a.txt'']"
  by (simp add: write_file_def write_file_steps_def with_suffix_a_txt mkdir_parents_w_plain
      open_for_def open_error_def write_data_def os_replace_def os_stat_def fs_lookup_def
      parent_def)
     (simp add: fs_plain_def os_replace_def os_stat_def open_error_def fs_lookup_def parent_def)

theorem write_file_is_atomic_witness:
  "fs_lookup fs_plain [''w'', ''a.txt''] = Some (File ''hello'')
   \<and> fs_lookup (snd (write_file [''w'', ''a.txt''] ''world'' ModeW fs_plain)) [''w'', ''a.txt'']
       = Some (File ''world'')
   \<and> fs_lookup (trace (write_text_steps [''w'', ''a.txt''] ''world'') fs_plain ! 1)
        [''w'', ''a.txt''] = Some (File [])"
proof -
  have pre: "with_suffix [''w'', ''a.txt''] ''.tmp'' = Inr [''w'', ''a.tmp'']
               \<and> [''w'', ''a.tmp''] \<noteq> [''w'', ''a.txt'']"
    by (simp add: with_suffix_a_txt)
  have oe: "open_error fs_plain [''w'', ''a.txt''] = None"
    by (simp add: open_error_def fs_lookup_def fs_plain_def parent_def)
  have run: "write_file [''w'', ''a.txt''] ''world'' ModeW fs_plain
               = (Inr [''w'', ''a.txt''],
                  snd (write_file [''w'', ''a.txt''] ''world'' ModeW fs_plain))"
    using write_file_a_txt by (simp add: prod_eq_iff)
  have old: "fs_lookup fs_plain [''w'', ''a.txt''] = Some (File ''hello'')"
    by (simp add: fs_lookup_def fs_plain_def)
  note t = write_file_is_atomic
    [where target = "[''w'', ''a.txt'']" and tmp = "[''w'', ''a.tmp'']" and c = "''world''"
       and s = fs_plain and p = "[''w'', ''a.txt'']"]
  note t1 = t [THEN conjunct1, THEN mp, OF pre, THEN conjunct2, THEN conjunct1,
               THEN spec, THEN spec, THEN mp, OF run, THEN conjunct2]
  note t3 = t [THEN conjunct2, THEN conjunct2, THEN mp, OF oe]
  from old t1 t3 show ?thesis by blast
qed

section \<open>The default tools, with and without a model\<close>

lemma map_filter_standard_tools_some:
  "List.map_filter (\<lambda>t. t) (standard_tools r (Some l)) =
     [ReadFileTool r, EditFileTool r, SearchExplainTool l r, LinkerTool r, NewFileTool r,
      GenerateTestTool r, FormatCodeTool r, NotebookTool r, GeneralChatTool l, RScriptTool]"
  by (simp add: standard_tools_def List.map_filter_simps)

lemma map_filter_standard_tools_none:
  "List.map_filter (\<lambda>t. t) (standard_tools r None) =
     [ReadFileTool r, EditFileTool r, LinkerTool r, NewFileTool r, FormatCodeTool r, RScriptTool]"
  by (simp add: standard_tools_def List.map_filter_simps)

text \<open>
  C8, as the claim states it, fails for a root directory that does not resolve: the
  process knows no user \<^verbatim>\<open>nosuchuser\<close>, the root \<^verbatim>\<open>~nosuchuser\<close> makes the first tool
  constructor raise, and the call raises instead of returning a registry.
\<close>

theorem unresolvable_root_raises_counterexample:
  "create_default_tools env_plain (Some ''~nosuchuser'') (None :: unit option)
     = Inl (OtherError ''Could not determine home directory.'')"
  by (simp add: create_default_tools_def root_path_def pure_path_def parse_parts_def
      tool_root_def expanduser_def env_plain_def)

text \<open>
  C8, amended.  For a root directory that resolves to \<open>r\<close>, the call with a model handle
  returns the ten tools, the four that need the model among them; the call without
  returns the six others, in the same order, and does not raise.  The tools left out
  are exactly \<^verbatim>\<open>search-explain\<close>, \<^verbatim>\<open>generate-test\<close>, \<^verbatim>\<open>notebook\<close> and \<^verbatim>\<open>general-chat\<close>.
\<close>

theorem registry_with_and_without_llm:
  "root_path env root_dir = Inr pp \<and> tool_root env pp = Inr r \<longrightarrow>
     create_default_tools env root_dir (Some l)
       = Inr [ReadFileTool r, EditFileTool r, SearchExplainTool l r, LinkerTool r, NewFileTool r,
              GenerateTestTool r, FormatCodeTool r, NotebookTool r, GeneralChatTool l, RScriptTool]
     \<and> create_default_tools env root_dir None
       = Inr (filter (\<lambda>t. \<not> needs_llm t)
                [ReadFileTool r, EditFileTool r, SearchExplainTool l r, LinkerTool r,
                 NewFileTool r, GenerateTestTool r, FormatCodeTool r, NotebookTool r,
                 GeneralChatTool l, RScriptTool])
     \<and> create_default_tools env root_dir (None :: 'l option)
       = Inr [ReadFileTool r, EditFileTool r, LinkerTool r, NewFileTool r, FormatCodeTool r,
              RScriptTool]
     \<and> map tool_name
         (filter needs_llm
            [ReadFileTool r, EditFileTool r, SearchExplainTool l r, LinkerTool r,
             NewFileTool r, GenerateTestTool r, FormatCodeTool r, NotebookTool r,
             GeneralChatTool l, RScriptTool])
       = [''search-explain'', ''generate-test'', ''notebook'', ''general-chat'']"
  by (simp add: create_default_tools_def map_filter_standard_tools_some
      map_filter_standard_tools_none)

theorem registry_with_and_without_llm_witness:
  "map tool_name (projr (create_default_tools env_plain (Some ''~/proj'') (Some ())))
     = [''read-file'', ''edit-file'', ''search-explain'', ''linker'', ''new-file'',
        ''generate-test'', ''format-code'', ''notebook'', ''general-chat'', ''r-script'']
   \<and> create_default_tools env_plain (Some ''~/proj'') (None :: unit option)
     = Inr [ReadFileTool [''root'', ''proj''], EditFileTool [''root'', ''proj''],
            LinkerTool [''root'', ''proj''], NewFileTool [''root'', ''proj''],
            FormatCodeTool [''root'', ''proj''], RScriptTool]"
proof -
  have pre: "root_path env_plain (Some ''~/proj'') = Inr (False, [''~'', ''proj''])
     \<and> tool_root env_plain (False, [''~'', ''proj'']) = Inr [''root'', ''proj'']"
    by (simp add: root_path_def pure_path_def parse_parts_def tool_root_def expanduser_def
        resolve_def env_plain_def)
  note t = registry_with_and_without_llm
    [where env = env_plain and root_dir = "Some ''~/proj''" and pp = "(False, [''~'', ''proj''])"
       and r = "[''root'', ''proj'']" and l = "()", THEN mp, OF pre]
  note t1 = t [THEN conjunct1]
  note t3 = t [THEN conjunct2, THEN conjunct2, THEN conjunct1]
  from t1 t3 show ?thesis by simp
qed

section \<open>The chat loop after a command\<close>

lemma strip_clear: "strip ''clear'' = ''clear''"
  by code_simp

lemma strip_hello: "strip ''hello'' = ''hello''"
  by code_simp

lemma handle_command_clear: "handle_command ''clear'' cs = (True, None)"
  by (simp add: handle_command_def)

lemma handle_command_hello: "handle_command ''hello'' cs = (True, cs)"
  by (simp add: handle_command_def)

lemma handle_command_none: "snd (handle_command user_input None) = None"
  by (simp add: handle_command_def)

lemma chat_turn_none:
  assumes "conversation_state st = None"
  shows "conversation_state (chat_turn agent line st) = None
         \<and> invoked (chat_turn agent line st) = invoked st
         \<and> world (chat_turn agent line st) = world st"
proof -
  obtain cont cs where h: "handle_command (strip line) None = (cont, cs)"
    by (cases "handle_command (strip line) None")
  with handle_command_none [of "strip line"] have "cs = None" by simp
  with h assms show ?thesis by (simp add: chat_turn_def Let_def)
qed

lemma chat_loop_none:
  "conversation_state st = None \<Longrightarrow>
     conversation_state (chat_loop agent lines st) = None
     \<and> invoked (chat_loop agent lines st) = invoked st
     \<and> world (chat_loop agent lines st) = world st"
proof (induction lines arbitrary: st)
  case Nil
  then show ?case by simp
next
  case (Cons line lines)
  show ?case
  proof (cases "running st")
    case True
    from chat_turn_none [OF Cons.prems, of agent line]
    have n: "conversation_state (chat_turn agent line st) = None"
      and i: "invoked (chat_turn agent line st) = invoked st"
      and w: "world (chat_turn agent line st) = world st" by simp_all
    from Cons.IH [OF n] i w True show ?thesis by simp
  next
    case False
    with Cons.prems show ?thesis by simp
  qed
qed

text \<open>
  C5.  After the line \<^verbatim>\<open>clear\<close> the variable \<^verbatim>\<open>conversation_state\<close> is \<^verbatim>\<open>None\<close>, not a
  dictionary with an empty list, and it stays \<^verbatim>\<open>None\<close> whatever is typed next: the agent
  is never invoked again in the session, and the world it acts on is as it was.  A
  session that begins with \<^verbatim>\<open>hello\<close> does invoke the agent, with the one human message.
\<close>

theorem clear_ends_forwarding:
  "conversation_state (chat_loop agent [''clear''] (chat_start w)) = None
   \<and> conversation_state (chat_loop agent (''clear'' # lines) (chat_start w)) = None
   \<and> invoked (chat_loop agent (''clear'' # lines) (chat_start w)) = []
   \<and> world (chat_loop agent (''clear'' # lines) (chat_start w)) = w
   \<and> invoked (chat_loop agent [''clear'', ''hello''] (chat_start w)) = []
   \<and> invoked (chat_loop agent [''hello''] (chat_start w)) = [[Tuple ''human'' ''hello'']]"
proof -
  have t: "chat_turn agent ''clear'' (chat_start w) = (chat_start w)\<lparr>conversation_state := None\<rparr>"
    by (simp add: chat_turn_def strip_clear handle_command_clear)
  have n: "conversation_state ((chat_start w)\<lparr>conversation_state := None\<rparr>) = None" by simp
  have r: "running (chat_start w)" by (simp add: chat_start_def)
  have l: "chat_loop agent (''clear'' # lines) (chat_start w)
             = chat_loop agent lines ((chat_start w)\<lparr>conversation_state := None\<rparr>)" for lines
    using r by (simp add: t)
  note k = chat_loop_none [OF n, of agent]
  have 1: "conversation_state (chat_loop agent [''clear''] (chat_start w)) = None"
    unfolding l using k [of "[]"] by simp
  have 2: "conversation_state (chat_loop agent (''clear'' # lines) (chat_start w)) = None"
    unfolding l using k [of lines] by simp
  have 3: "invoked (chat_loop agent (''clear'' # lines) (chat_start w)) = []"
    unfolding l using k [of lines] by (simp add: chat_start_def)
  have 4: "world (chat_loop agent (''clear'' # lines) (chat_start w)) = w"
    unfolding l using k [of lines] by (simp add: chat_start_def)
  have 5: "invoked (chat_loop agent [''clear'', ''hello''] (chat_start w)) = []"
    unfolding l using k [of "[''hello'']"] by (simp add: chat_start_def)
  have 6: "invoked (chat_loop agent [''hello''] (chat_start w)) = [[Tuple ''human'' ''hello'']]"
    using r
    by (simp add: chat_turn_def strip_hello handle_command_hello chat_start_def Let_def
        split: prod.splits sum.splits)
  from 1 2 3 4 5 6 show ?thesis by blast
qed

section \<open>Loading and saving the persistent state\<close>






end
